theory Spec2Isabelle
  imports Main "HOL-Library.State_Monad"
begin

section \<open>The construct tree of \<open>lib/data-analytics-infra-stack.ts\<close>\<close>

text \<open>
  The repository is one class, \<open>DataAnalyticsStack\<close>, whose constructor instantiates
  thirteen constructs of the CDK library in the scope \<open>this\<close>. The library itself is
  not part of the repository, so a construct is kept as what the source hands to it:
  its class, its id in the scope and its property object, the property values being
  the source's expressions. What a class does with its properties inside the library
  (the subnets of a VPC, the secret behind generated credentials, the synthesised
  template) is outside the model.
\<close>

subsection \<open>Property values\<close>

text \<open>
  A value of a property object, as the source writes it:
  a string, number or boolean literal; a static member such as
  \<open>cdk.RemovalPolicy.DESTROY\<close> (by its qualified name); a call of a static factory
  such as \<open>rds.Credentials.fromGeneratedSecret("admin")\<close>; a \<open>new\<close> of a class that
  takes no scope, such as \<open>new iam.ServicePrincipal(...)\<close>; an object or array
  literal; a construct held in a local constant and passed as it is (\<open>vpc\<close>); an
  attribute of such a construct (\<open>dmsRole.roleArn\<close>); an attribute of the stack
  (\<open>this.account\<close>); a template literal, as the list of its parts.
\<close>

type_synonym handle = string

datatype pvalue =
    VStr string
  | VNum int
  | VBool bool
  | VMember string
  | VCall string "pvalue list"
  | VNew string "pvalue list"
  | VObj "(string \<times> pvalue) list"
  | VArr "pvalue list"
  | VConstruct handle
  | VAttr handle string
  | VThis string
  | VTmpl "pvalue list"

type_synonym props = "(string \<times> pvalue) list"

subsection \<open>Constructs and the stack\<close>

text \<open>The thirteen construct classes the constructor instantiates with \<open>this\<close> as scope.\<close>

datatype construct_class =
    ec2_Vpc
  | iam_Role
  | s3_Bucket
  | rds_DatabaseInstance
  | redshift_Cluster
  | glue_CfnDatabase
  | glue_CfnCrawler
  | lambda_Function
  | athena_CfnWorkGroup
  | quicksight_CfnDashboard
  | cloudwatch_Alarm
  | cloudtrail_Trail
  | cdk_CfnOutput

record construct =
  cclass :: construct_class
  cid :: string
  cprops :: props

text \<open>
  The stack after \<open>super(scope, id, props)\<close>: the arguments as received, and in
  \<open>children\<close> the constructs that the \<open>new\<close> expressions of the constructor have
  added to it so far, in the order of their creation. The list is what the source
  declares. A construct that a library class adds to the stack on its own account
  (the provider that \<open>s3.Bucket\<close> registers for \<open>autoDeleteObjects\<close>, for one) is
  not in it, so nothing below counts the constructs of the synthesised stack.
\<close>

record ('s, 'p) stack =
  stack_scope :: 's
  stack_id :: string
  stack_props :: "'p option"
  children :: "construct list"

definition Stack_super :: "'s \<Rightarrow> string \<Rightarrow> 'p option \<Rightarrow> ('s, 'p) stack" where
  "Stack_super scope sid sprops =
     \<lparr>stack_scope = scope, stack_id = sid, stack_props = sprops, children = []\<rparr>"

text \<open>
  \<open>new C(this, id, props)\<close>: the construct is added to the scope \<open>this\<close> and the
  expression evaluates to it; the model returns its id as the handle by which later
  properties refer to it. Only the construct the expression names is recorded, with
  the properties the source passes; what the class creates beyond it is the library's.
\<close>

definition new_construct ::
  "construct_class \<Rightarrow> string \<Rightarrow> props \<Rightarrow> (('s, 'p) stack, handle) state" where
  "new_construct c i p =
     State (\<lambda>this. (i, this\<lparr>children := children this @ [\<lparr>cclass = c, cid = i, cprops = p\<rparr>]\<rparr>))"

subsection \<open>The constructor\<close>

text \<open>The inline handler of the Lambda function: the template literal of lines 104 to 109.\<close>

definition transform_handler_source :: string where
  "transform_handler_source =
     [CHR 0x0A] @ ''        exports.handler = async (event) => {'' @
     [CHR 0x0A] @ ''          console.log('' @ [CHR 0x22] @ ''Data transformation in progress''
                @ [CHR 0x22] @ '');'' @
     [CHR 0x0A] @ ''          return event;'' @
     [CHR 0x0A] @ ''        };'' @
     [CHR 0x0A] @ ''      ''"

text \<open>
  The constructor: \<open>super(scope, id, props)\<close>, then the thirteen \<open>new\<close> expressions
  in the order of the source, each local constant bound to the construct created.
\<close>

definition DataAnalyticsStack :: "'s \<Rightarrow> string \<Rightarrow> 'p option \<Rightarrow> ('s, 'p) stack" where
  "DataAnalyticsStack scope sid sprops = snd (run_state (do {
     vpc \<leftarrow> new_construct ec2_Vpc ''AnalyticsVpc''
       [(''maxAzs'', VNum 2),
        (''natGateways'', VNum 1)];
     dmsRole \<leftarrow> new_construct iam_Role ''DMSRole''
       [(''assumedBy'', VNew ''iam.ServicePrincipal'' [VStr ''dms.amazonaws.com'']),
        (''managedPolicies'', VArr
           [VCall ''iam.ManagedPolicy.fromAwsManagedPolicyName''
              [VStr ''AmazonDMSVPCManagementRole''],
            VCall ''iam.ManagedPolicy.fromAwsManagedPolicyName''
              [VStr ''AmazonDMSRedshiftS3Role''],
            VCall ''iam.ManagedPolicy.fromAwsManagedPolicyName''
              [VStr ''AmazonS3FullAccess'']])];
     dataLakeBucket \<leftarrow> new_construct s3_Bucket ''DataLakeBucket''
       [(''removalPolicy'', VMember ''cdk.RemovalPolicy.DESTROY''),
        (''autoDeleteObjects'', VBool True)];
     rdsInstance \<leftarrow> new_construct rds_DatabaseInstance ''RDSInstance''
       [(''engine'', VCall ''rds.DatabaseInstanceEngine.postgres''
           [VObj [(''version'', VMember ''rds.PostgresEngineVersion.VER_13_4'')]]),
        (''vpc'', VConstruct vpc),
        (''instanceType'', VCall ''ec2.InstanceType.of''
           [VMember ''ec2.InstanceClass.T3'', VMember ''ec2.InstanceSize.MICRO'']),
        (''multiAz'', VBool False),
        (''allocatedStorage'', VNum 100),
        (''maxAllocatedStorage'', VNum 200),
        (''credentials'', VCall ''rds.Credentials.fromGeneratedSecret'' [VStr ''admin'']),
        (''vpcSubnets'', VObj [(''subnetType'', VMember ''ec2.SubnetType.PUBLIC'')]),
        (''publiclyAccessible'', VBool True),
        (''removalPolicy'', VMember ''cdk.RemovalPolicy.DESTROY'')];
     redshiftCluster \<leftarrow> new_construct redshift_Cluster ''RedshiftCluster''
       [(''masterUser'', VObj [(''masterUsername'', VStr ''admin'')]),
        (''vpc'', VConstruct vpc),
        (''nodeType'', VMember ''redshift.NodeType.DC2_LARGE''),
        (''numberOfNodes'', VNum 2),
        (''defaultDatabaseName'', VStr ''analyticsdb''),
        (''publiclyAccessible'', VBool True),
        (''removalPolicy'', VMember ''cdk.RemovalPolicy.DESTROY'')];
     glueDatabase \<leftarrow> new_construct glue_CfnDatabase ''GlueDatabase''
       [(''catalogId'', VThis ''account''),
        (''databaseInput'', VObj [(''name'', VStr ''analytics_database'')])];
     glueCrawler \<leftarrow> new_construct glue_CfnCrawler ''GlueCrawler''
       [(''role'', VAttr dmsRole ''roleArn''),
        (''databaseName'', VAttr glueDatabase ''ref''),
        (''targets'', VObj
           [(''s3Targets'', VArr
              [VObj [(''path'', VTmpl [VStr ''s3://'', VAttr dataLakeBucket ''bucketName''])]])])];
     transformFunction \<leftarrow> new_construct lambda_Function ''TransformFunction''
       [(''runtime'', VMember ''lambda.Runtime.NODEJS_18_X''),
        (''code'', VCall ''lambda.Code.fromInline'' [VStr transform_handler_source]),
        (''handler'', VStr ''index.handler'')];
     athenaWorkgroup \<leftarrow> new_construct athena_CfnWorkGroup ''AthenaWorkgroup''
       [(''name'', VStr ''AthenaWorkgroup''),
        (''state'', VStr ''ENABLED''),
        (''workGroupConfiguration'', VObj
           [(''resultConfiguration'', VObj
              [(''outputLocation'', VTmpl
                 [VStr ''s3://'', VAttr dataLakeBucket ''bucketName'',
                  VStr ''/athena-results/''])])])];
     quickSightDashboard \<leftarrow> new_construct quicksight_CfnDashboard ''QuickSightDashboard''
       [(''awsAccountId'', VThis ''account''),
        (''dashboardId'', VStr ''analytics_dashboard''),
        (''name'', VStr ''Analytics Dashboard''),
        (''sourceEntity'', VObj
           [(''sourceTemplate'', VObj
              [(''arn'', VTmpl
                 [VStr ''arn:aws:quicksight:'', VThis ''region'', VStr '':'',
                  VThis ''account'', VStr '':template/YourTemplateId'']),
               (''dataSetReferences'', VArr
                 [VObj [(''dataSetArn'', VStr ''arn:aws:quicksight:::dataset/YourDataSetId''),
                        (''dataSetPlaceholder'', VStr ''dataset_placeholder'')]])])])];
     cloudWatchAlarm \<leftarrow> new_construct cloudwatch_Alarm ''RedshiftCPUAlarm''
       [(''metric'', VNew ''cloudwatch.Metric''
           [VObj [(''namespace'', VStr ''AWS/Redshift''),
                  (''metricName'', VStr ''CPUUtilization''),
                  (''dimensionsMap'', VObj
                     [(''ClusterIdentifier'', VAttr redshiftCluster ''clusterName'')])]]),
        (''threshold'', VNum 80),
        (''evaluationPeriods'', VNum 3)];
     trail \<leftarrow> new_construct cloudtrail_Trail ''CloudTrail''
       [(''bucket'', VConstruct dataLakeBucket)];
     _ \<leftarrow> new_construct cdk_CfnOutput ''S3BucketURL''
       [(''value'', VAttr dataLakeBucket ''bucketWebsiteUrl''),
        (''description'', VStr ''The S3 bucket URL where data is stored'')];
     State_Monad.return ()
   }) (Stack_super scope sid sprops))"

subsection \<open>Reading the tree\<close>

definition constructs_of :: "construct_class \<Rightarrow> ('s, 'p) stack \<Rightarrow> construct list" where
  "constructs_of c this = filter (\<lambda>x. cclass x = c) (children this)"

definition find_construct :: "handle \<Rightarrow> ('s, 'p) stack \<Rightarrow> construct option" where
  "find_construct h this = find (\<lambda>x. cid x = h) (children this)"

text \<open>
  The value of a property of a construct. In an object literal that names a property
  twice the later value stands, so the list is read from its end.
\<close>

definition get_prop :: "string \<Rightarrow> construct \<Rightarrow> pvalue option" where
  "get_prop name x = map_of (rev (cprops x)) name"

text \<open>The constructs a property value refers to, in the order they occur in it.\<close>

fun refs :: "pvalue \<Rightarrow> handle list" where
  "refs (VStr s) = []"
| "refs (VNum n) = []"
| "refs (VBool b) = []"
| "refs (VMember m) = []"
| "refs (VCall f args) = concat (map refs args)"
| "refs (VNew c args) = concat (map refs args)"
| "refs (VObj fs) = concat (map (\<lambda>(k, v). refs v) fs)"
| "refs (VArr vs) = concat (map refs vs)"
| "refs (VConstruct h) = [h]"
| "refs (VAttr h a) = [h]"
| "refs (VThis a) = []"
| "refs (VTmpl parts) = concat (map refs parts)"

definition construct_refs :: "construct \<Rightarrow> handle list" where
  "construct_refs x = concat (map (\<lambda>(k, v). refs v) (cprops x))"

text \<open>
  Whether every id is new in the scope when it is used and every reference is to a
  construct created before: \<open>seen\<close> holds the ids created so far.
\<close>

fun refs_declared :: "handle list \<Rightarrow> construct list \<Rightarrow> bool" where
  "refs_declared seen [] = True"
| "refs_declared seen (x # xs) =
     (list_all (\<lambda>h. h \<in> set seen) (construct_refs x) \<and> cid x \<notin> set seen \<and>
      refs_declared (cid x # seen) xs)"

subsection \<open>The topology and the data stores the specification names\<close>

text \<open>
  The topology as the specification lists it: a network (VPC), a relational database
  (RDS instance), a data warehouse cluster (Redshift), a data catalog (Glue database
  and crawler), a serverless transform function (Lambda), a query workgroup (Athena),
  a dashboard (QuickSight), and monitoring and audit resources (a CloudWatch alarm and
  a CloudTrail trail). This list follows the specification's words, not the source.
\<close>

definition stated_topology :: "construct_class list" where
  "stated_topology =
     [ec2_Vpc, rds_DatabaseInstance, redshift_Cluster, glue_CfnDatabase, glue_CfnCrawler,
      lambda_Function, athena_CfnWorkGroup, quicksight_CfnDashboard, cloudwatch_Alarm,
      cloudtrail_Trail]"

text \<open>The classes of the constructs that hold stored data: bucket, database, warehouse.\<close>

definition data_store_classes :: "construct_class list" where
  "data_store_classes = [s3_Bucket, rds_DatabaseInstance, redshift_Cluster]"

section \<open>The constructed stack\<close>

lemmas stack_eval = DataAnalyticsStack_def new_construct_def Stack_super_def
  constructs_of_def find_construct_def get_prop_def construct_refs_def

text \<open>
  The constructs the thirteen \<open>new\<close> expressions of the constructor create, by class
  and id, in the order of the source.
\<close>

lemma DataAnalyticsStack_children:
  "map (\<lambda>x. (cclass x, cid x)) (children (DataAnalyticsStack scope sid sprops)) =
     [(ec2_Vpc, ''AnalyticsVpc''),
      (iam_Role, ''DMSRole''),
      (s3_Bucket, ''DataLakeBucket''),
      (rds_DatabaseInstance, ''RDSInstance''),
      (redshift_Cluster, ''RedshiftCluster''),
      (glue_CfnDatabase, ''GlueDatabase''),
      (glue_CfnCrawler, ''GlueCrawler''),
      (lambda_Function, ''TransformFunction''),
      (athena_CfnWorkGroup, ''AthenaWorkgroup''),
      (quicksight_CfnDashboard, ''QuickSightDashboard''),
      (cloudwatch_Alarm, ''RedshiftCPUAlarm''),
      (cloudtrail_Trail, ''CloudTrail''),
      (cdk_CfnOutput, ''S3BucketURL'')]"
  by (simp add: stack_eval)

text \<open>The constructor touches nothing of the stack but its list of constructs.\<close>

lemma DataAnalyticsStack_arguments:
  "stack_scope (DataAnalyticsStack scope sid sprops) = scope \<and>
   stack_id (DataAnalyticsStack scope sid sprops) = sid \<and>
   stack_props (DataAnalyticsStack scope sid sprops) = sprops"
  by (simp add: stack_eval)

text \<open>
  No id is used twice, and every local constant is used only after the \<open>new\<close> that
  binds it: the handles of the model name one construct each.
\<close>

lemma DataAnalyticsStack_ids_distinct:
  "distinct (map cid (children (DataAnalyticsStack scope sid sprops)))"
  by (simp add: stack_eval)

lemma DataAnalyticsStack_refs_declared:
  "refs_declared [] (children (DataAnalyticsStack scope sid sprops))"
  by (simp add: stack_eval)

section \<open>The claims about the stack\<close>

text \<open>
  C1. The stack declares its database endpoints as world-accessible and uses
  auto-generated secrets: the one RDS database instance the constructor declares,
  \<open>RDSInstance\<close>, has \<open>publiclyAccessible\<close> set to true and its credentials are
  \<open>rds.Credentials.fromGeneratedSecret("admin")\<close>; the one Redshift cluster it declares,
  \<open>RedshiftCluster\<close>, has \<open>publiclyAccessible\<close> set to true. This holds for every scope,
  id and stack properties the constructor is called with.
\<close>

theorem C1_public_endpoints_generated_secret:
  "map (\<lambda>x. (cid x, get_prop ''publiclyAccessible'' x, get_prop ''credentials'' x))
       (constructs_of rds_DatabaseInstance (DataAnalyticsStack scope sid sprops))
     = [(''RDSInstance'', Some (VBool True),
         Some (VCall ''rds.Credentials.fromGeneratedSecret'' [VStr ''admin'']))]
   \<and> map (\<lambda>x. (cid x, get_prop ''publiclyAccessible'' x))
         (constructs_of redshift_Cluster (DataAnalyticsStack scope sid sprops))
     = [(''RedshiftCluster'', Some (VBool True))]"
  by (simp add: stack_eval)

text \<open>
  C2, as stated: the constructor declares exactly the stated topology. It does not:
  the classes of the declared constructs are not the classes of the stated topology,
  even as sets, since the stack also declares an S3 bucket (and an IAM role and a
  stack output), which the list does not name.
\<close>

theorem C2_not_exactly_stated_topology:
  "set (map cclass (children
      (DataAnalyticsStack () ''DataAnalyticsStack'' (None :: unit option))))
     \<noteq> set stated_topology"
proof
  assume eq: "set (map cclass (children
      (DataAnalyticsStack () ''DataAnalyticsStack'' (None :: unit option))))
     = set stated_topology"
  have "s3_Bucket \<in> set (map cclass (children
      (DataAnalyticsStack () ''DataAnalyticsStack'' (None :: unit option))))"
    by (simp add: stack_eval)
  with eq have "s3_Bucket \<in> set stated_topology"
    by simp
  then show False
    by (simp add: stated_topology_def)
qed

text \<open>
  C2, amended: the constructor declares every resource of the stated topology, each
  once and in the order of the list (VPC, RDS instance, Redshift cluster, Glue database,
  Glue crawler, Lambda function, Athena workgroup, QuickSight dashboard, CloudWatch
  alarm, CloudTrail trail), and it also declares constructs of classes the list does
  not name: the IAM role \<open>DMSRole\<close>, the S3 bucket \<open>DataLakeBucket\<close> and the stack
  output \<open>S3BucketURL\<close>. Nothing is said of how many constructs the stack has beyond
  the listed ones.
\<close>

theorem C2_stated_topology_and_unlisted_constructs:
  "filter (\<lambda>c. c \<in> set stated_topology)
      (map cclass (children (DataAnalyticsStack scope sid sprops))) = stated_topology
   \<and> (iam_Role, ''DMSRole'')
        \<in> set (map (\<lambda>x. (cclass x, cid x)) (children (DataAnalyticsStack scope sid sprops)))
   \<and> (s3_Bucket, ''DataLakeBucket'')
        \<in> set (map (\<lambda>x. (cclass x, cid x)) (children (DataAnalyticsStack scope sid sprops)))
   \<and> (cdk_CfnOutput, ''S3BucketURL'')
        \<in> set (map (\<lambda>x. (cclass x, cid x)) (children (DataAnalyticsStack scope sid sprops)))
   \<and> iam_Role \<notin> set stated_topology
   \<and> s3_Bucket \<notin> set stated_topology
   \<and> cdk_CfnOutput \<notin> set stated_topology"
  by (simp add: stack_eval stated_topology_def)

text \<open>
  C9. Every data store the constructor declares is marked for destruction when the
  stack is removed: the constructs of the data store classes are the bucket
  \<open>DataLakeBucket\<close>, the database \<open>RDSInstance\<close> and the cluster \<open>RedshiftCluster\<close>, each
  with \<open>removalPolicy\<close> set to \<open>cdk.RemovalPolicy.DESTROY\<close>, and the bucket has
  \<open>autoDeleteObjects\<close> set to true.
\<close>

theorem C9_data_stores_removal_policy_destroy:
  "map (\<lambda>x. (cclass x, cid x, get_prop ''removalPolicy'' x))
       (filter (\<lambda>x. cclass x \<in> set data_store_classes)
          (children (DataAnalyticsStack scope sid sprops)))
     = [(s3_Bucket, ''DataLakeBucket'', Some (VMember ''cdk.RemovalPolicy.DESTROY'')),
        (rds_DatabaseInstance, ''RDSInstance'', Some (VMember ''cdk.RemovalPolicy.DESTROY'')),
        (redshift_Cluster, ''RedshiftCluster'', Some (VMember ''cdk.RemovalPolicy.DESTROY''))]
   \<and> map (get_prop ''autoDeleteObjects'')
         (constructs_of s3_Bucket (DataAnalyticsStack scope sid sprops)) = [Some (VBool True)]"
  by (simp add: stack_eval data_store_classes_def)

text \<open>
  C10. The Glue crawler runs under the role created for DMS ingestion: the \<open>role\<close>
  property of the one crawler is \<open>dmsRole.roleArn\<close>, where \<open>dmsRole\<close> is the construct
  \<open>DMSRole\<close>, an IAM role assumed by \<open>dms.amazonaws.com\<close> whose managed policies include
  \<open>AmazonS3FullAccess\<close>. It is the only IAM role the constructor itself declares, and
  nothing in its properties refers to the data-lake bucket (or to any other construct),
  so the constructor declares no role scoped to the bucket.
\<close>

theorem C10_crawler_role_is_dms_role_with_s3_full_access:
  "map (get_prop ''role'') (constructs_of glue_CfnCrawler (DataAnalyticsStack scope sid sprops))
     = [Some (VAttr ''DMSRole'' ''roleArn'')]
   \<and> map_option (\<lambda>r. (cclass r, get_prop ''assumedBy'' r, get_prop ''managedPolicies'' r))
         (find_construct ''DMSRole'' (DataAnalyticsStack scope sid sprops))
     = Some (iam_Role,
         Some (VNew ''iam.ServicePrincipal'' [VStr ''dms.amazonaws.com'']),
         Some (VArr
           [VCall ''iam.ManagedPolicy.fromAwsManagedPolicyName''
              [VStr ''AmazonDMSVPCManagementRole''],
            VCall ''iam.ManagedPolicy.fromAwsManagedPolicyName''
              [VStr ''AmazonDMSRedshiftS3Role''],
            VCall ''iam.ManagedPolicy.fromAwsManagedPolicyName''
              [VStr ''AmazonS3FullAccess'']]))
   \<and> map cid (constructs_of iam_Role (DataAnalyticsStack scope sid sprops)) = [''DMSRole'']
   \<and> concat (map construct_refs
         (constructs_of iam_Role (DataAnalyticsStack scope sid sprops))) = []"
  by (simp add: stack_eval)

end
